theory Spec2Isabelle
  imports Complex_Main "HOL-Library.Word"
begin

unbundle bit_operations_syntax

section \<open>Skywriter (MGC3130) driver: \<^verbatim>\<open>src/sky.py\<close>\<close>

text \<open>
  The driver talks to the sensor over I2C and one GPIO line (XFER), and prints one line
  per decoded event. The model keeps the source's names. A \<^verbatim>\<open>bytearray\<close> is a list of
  8-bit words; every value computed from it is a Python integer, modelled as \<open>int\<close>.
  A \<^verbatim>\<open>print\<close> is an element of the list of printed lines; an exception is a value of
  \<open>error\<close>.
\<close>

subsection \<open>Constants\<close>

type_synonym byte = "8 word"

datatype error = IndexError | OSError | ValueError | TypeError | RuntimeError string

definition SW_ADDR :: int where "SW_ADDR = 0x42"
definition SW_SYSTEM_STATUS :: int where "SW_SYSTEM_STATUS = 0x15"
definition SW_FW_VERSION :: int where "SW_FW_VERSION = 0x83"
definition SW_SET_RUNTIME :: int where "SW_SET_RUNTIME = 0xA2"
definition SW_SENSOR_DATA :: int where "SW_SENSOR_DATA = 0x91"

definition SW_DATA_DSP :: int where "SW_DATA_DSP = push_bit 0 1"
definition SW_DATA_GESTURE :: int where "SW_DATA_GESTURE = push_bit 1 1"
definition SW_DATA_TOUCH :: int where "SW_DATA_TOUCH = push_bit 2 1"
definition SW_DATA_AIRWHEEL :: int where "SW_DATA_AIRWHEEL = push_bit 3 1"
definition SW_DATA_XYZ :: int where "SW_DATA_XYZ = push_bit 4 1"

definition SYS_POSITION_VALID :: int where "SYS_POSITION_VALID = push_bit 0 1"
definition SYS_AIRWHEEL_VALID :: int where "SYS_AIRWHEEL_VALID = push_bit 1 1"

definition TOUCH_ACTIONS :: "(string \<times> string) list" where
  "TOUCH_ACTIONS =
    [(''doubletap'', ''center''),
     (''doubletap'', ''east''),
     (''doubletap'', ''north''),
     (''doubletap'', ''west''),
     (''doubletap'', ''south''),
     (''tap'', ''center''),
     (''tap'', ''east''),
     (''tap'', ''north''),
     (''tap'', ''west''),
     (''tap'', ''south''),
     (''touch'', ''center''),
     (''touch'', ''east''),
     (''touch'', ''north''),
     (''touch'', ''west''),
     (''touch'', ''south'')]"

text \<open>The dictionary \<^verbatim>\<open>GESTURES\<close>; \<^verbatim>\<open>GESTURES.get(gid)\<close> is \<open>map_of GESTURES gid\<close>.\<close>

definition GESTURES :: "(int \<times> string \<times> string \<times> string) list" where
  "GESTURES =
    [(1, ''garbage'', '''', ''''),
     (2, ''flick'', ''west'', ''east''),
     (3, ''flick'', ''east'', ''west''),
     (4, ''flick'', ''south'', ''north''),
     (5, ''flick'', ''north'', ''south''),
     (6, ''circle'', ''clockwise'', ''''),
     (7, ''circle'', ''counter-clockwise'', '''')]"

subsection \<open>Helpers\<close>

definition u16 :: "int \<Rightarrow> int \<Rightarrow> int" where
  "u16 lsb msb = (push_bit 8 msb) OR lsb"

text \<open>
  Python's \<^verbatim>\<open>round(x, ndigits)\<close> rounds to the nearest multiple of \<open>10 ^ -ndigits\<close>, a tie
  going to the even one. Floats are modelled as exact reals: \<^verbatim>\<open>val_u16 / 65536.0\<close> is a
  division by a power of two, exact in binary floating point for every 16-bit value; the
  final conversion of the rounded decimal to the nearest float is not modelled.
\<close>

definition round_half_even :: "real \<Rightarrow> int" where
  "round_half_even x =
     (let f = \<lfloor>x\<rfloor>; d = x - of_int f in
      if d < 1 / 2 then f
      else if 1 / 2 < d then f + 1
      else if even f then f else f + 1)"

definition py_round :: "real \<Rightarrow> nat \<Rightarrow> real" where
  "py_round x ndigits = of_int (round_half_even (x * 10 ^ ndigits)) / 10 ^ ndigits"

definition normalize_0_1 :: "int \<Rightarrow> real" where
  "normalize_0_1 val_u16 = py_round (of_int val_u16 / 65536) 4"

text \<open>
  \<^verbatim>\<open>payload[i]\<close> for a literal index \<open>i \<ge> 0\<close>: the byte as an integer, or IndexError.
\<close>

definition getitem :: "byte list \<Rightarrow> nat \<Rightarrow> error + int" where
  "getitem xs i = (if i < length xs then Inr (uint (xs ! i)) else Inl IndexError)"

definition bind_err :: "error + 'a \<Rightarrow> ('a \<Rightarrow> error + 'b) \<Rightarrow> error + 'b" where
  "bind_err m f = (case m of Inl e \<Rightarrow> Inl e | Inr v \<Rightarrow> f v)"

subsection \<open>Printed lines\<close>

text \<open>
  One constructor per \<^verbatim>\<open>print\<close> that the decoder reaches, carrying the values the
  format string shows. The \<^verbatim>\<open>print("FW:", fw)\<close> of \<^verbatim>\<open>process_frame\<close> is never reached
  (see there) and has no constructor.
\<close>

datatype line =
    XYZ real real real
  | GESTURE_flick string string
  | GESTURE_circle string
  | GESTURE_kind string
  | GESTURE_id int
  | TOUCH string string
  | TOUCH_bit nat
  | AIRWHEEL int

subsection \<open>\<^verbatim>\<open>handle_sensor_data\<close>\<close>

text \<open>
  Each of the four blocks of \<^verbatim>\<open>handle_sensor_data\<close> reads its payload bytes before it
  prints, so a block either raises IndexError having printed nothing, or returns the lines
  it printed.
\<close>

definition xyz_block :: "int \<Rightarrow> int \<Rightarrow> byte list \<Rightarrow> error + line list" where
  "xyz_block configmask sysinfo payload =
     (if (configmask AND SW_DATA_XYZ) \<noteq> 0 \<and> (sysinfo AND SYS_POSITION_VALID) \<noteq> 0 then
        bind_err (getitem payload 16) (\<lambda>x_l.
        bind_err (getitem payload 17) (\<lambda>x_h.
        bind_err (getitem payload 18) (\<lambda>y_l.
        bind_err (getitem payload 19) (\<lambda>y_h.
        bind_err (getitem payload 20) (\<lambda>z_l.
        bind_err (getitem payload 21) (\<lambda>z_h.
          Inr [XYZ (normalize_0_1 (u16 x_l x_h))
                   (normalize_0_1 (u16 y_l y_h))
                   (normalize_0_1 (u16 z_l z_h))]))))))
      else Inr [])"

definition gesture_line :: "int \<Rightarrow> line" where
  "gesture_line gid =
     (case map_of GESTURES gid of
        Some (kind, a, b) \<Rightarrow>
          if kind = ''flick'' then GESTURE_flick a b
          else if kind = ''circle'' then GESTURE_circle a
          else GESTURE_kind kind
      | None \<Rightarrow> GESTURE_id gid)"

definition gesture_block :: "int \<Rightarrow> byte list \<Rightarrow> error + line list" where
  "gesture_block configmask payload =
     (if (configmask AND SW_DATA_GESTURE) \<noteq> 0 then
        bind_err (getitem payload 6) (\<lambda>gid.
          if gid \<noteq> 0 then Inr [gesture_line gid] else Inr [])
      else Inr [])"

text \<open>
  The loop \<^verbatim>\<open>for idx in range(16)\<close> with its \<^verbatim>\<open>break\<close>: recursion over the remaining
  indices, \<^verbatim>\<open>comp\<close> (here \<open>comp'\<close>) shifted right after each index that did not match.
\<close>

fun touch_scan :: "int \<Rightarrow> int \<Rightarrow> nat list \<Rightarrow> line list" where
  "touch_scan action comp' [] = []"
| "touch_scan action comp' (idx # rest) =
     (if (action AND comp') \<noteq> 0 then
        (if idx < length TOUCH_ACTIONS
         then [TOUCH (fst (TOUCH_ACTIONS ! idx)) (snd (TOUCH_ACTIONS ! idx))]
         else [TOUCH_bit idx])
      else touch_scan action (drop_bit 1 comp') rest)"

definition touch_block :: "int \<Rightarrow> byte list \<Rightarrow> error + line list" where
  "touch_block configmask payload =
     (if (configmask AND SW_DATA_TOUCH) \<noteq> 0 then
        bind_err (getitem payload 11) (\<lambda>t1.
        bind_err (getitem payload 10) (\<lambda>t0.
          Inr (touch_scan ((push_bit 8 t1) OR t0) (push_bit 14 1) [0..<16])))
      else Inr [])"

definition airwheel_block :: "int \<Rightarrow> int \<Rightarrow> byte list \<Rightarrow> error + line list" where
  "airwheel_block configmask sysinfo payload =
     (if (configmask AND SW_DATA_AIRWHEEL) \<noteq> 0 \<and> (sysinfo AND SYS_AIRWHEEL_VALID) \<noteq> 0 then
        bind_err (getitem payload 14) (\<lambda>rot_byte. Inr [AIRWHEEL rot_byte])
      else Inr [])"

text \<open>
  Running the blocks in order: the lines printed so far, and the exception that ended the
  call, if any.
\<close>

fun run_blocks :: "(error + line list) list \<Rightarrow> line list \<times> error option" where
  "run_blocks [] = ([], None)"
| "run_blocks (Inl e # rest) = ([], Some e)"
| "run_blocks (Inr ls # rest) = (case run_blocks rest of (ls', r) \<Rightarrow> (ls @ ls', r))"

definition handle_sensor_data :: "byte list \<Rightarrow> line list \<times> error option" where
  "handle_sensor_data payload =
     (case getitem payload 0 of
        Inl e \<Rightarrow> ([], Some e)
      | Inr p0 \<Rightarrow>
         (case getitem payload 1 of
            Inl e \<Rightarrow> ([], Some e)
          | Inr p1 \<Rightarrow>
             (case getitem payload 3 of
                Inl e \<Rightarrow> ([], Some e)
              | Inr sysinfo \<Rightarrow>
                  let configmask = p0 OR (push_bit 8 p1) in
                  run_blocks
                    [xyz_block configmask sysinfo payload,
                     gesture_block configmask payload,
                     touch_block configmask payload,
                     airwheel_block configmask sysinfo payload])))"

subsection \<open>\<^verbatim>\<open>process_frame\<close>\<close>

text \<open>
  The frame is \<open>None\<close> when \<^verbatim>\<open>read_frame_raw\<close> returned \<^verbatim>\<open>None\<close>. A slice never raises:
  \<^verbatim>\<open>frame[4:]\<close> is \<open>drop 4 frame\<close>.

  The program runs on MicroPython (it imports \<^verbatim>\<open>machine\<close> and calls \<^verbatim>\<open>time.sleep_ms\<close>).
  There \<^verbatim>\<open>bytes.decode\<close> takes positional arguments only, so in the FIRMWARE_VERSION
  branch the call \<^verbatim>\<open>bytes(payload[8:]).decode(errors='ignore')\<close> raises TypeError, whatever
  the bytes are: the slice and \<^verbatim>\<open>bytes(...)\<close> succeed, \<^verbatim>\<open>decode\<close> raises, and neither
  \<^verbatim>\<open>strip\<close> nor \<^verbatim>\<open>print\<close> is reached.
\<close>

definition process_frame :: "byte list option \<Rightarrow> line list \<times> error option" where
  "process_frame frame_opt =
     (case frame_opt of
        None \<Rightarrow> ([], None)
      | Some frame \<Rightarrow>
          if frame = [] \<or> length frame < 4 then ([], None)
          else
            let d_ident = uint (frame ! 3);
                payload = drop 4 frame in
            if d_ident = SW_SENSOR_DATA then handle_sensor_data payload
            else if d_ident = SW_SYSTEM_STATUS then ([], None)
            else if d_ident = SW_FW_VERSION then ([], Some TypeError)
            else ([], None))"

section \<open>Bus, pins and device control\<close>

text \<open>
  The hardware is outside the program. What the program does to it is recorded in a log of
  operations, in order, and in the mode of the XFER pin; what the hardware answers comes
  from an environment: for the \<open>k\<close>-th polling attempt of \<^verbatim>\<open>get_status_expect\<close> (counted
  from 0 over the whole run), the level \<^verbatim>\<open>pin_xfer.value()\<close> returns in
  \<^verbatim>\<open>get_status_expect\<close>, the level it returns in \<^verbatim>\<open>read_frame_raw\<close>, and the outcome of
  \<^verbatim>\<open>i2c.readfrom_mem\<close> (the bytes read, or the exception raised); for the \<open>k\<close>-th block
  write, the exception \<^verbatim>\<open>i2c.writeto_mem\<close> raises, if any.
\<close>

datatype pin_mode = IN_PULL_UP | OUT

datatype hw_op =
    Sleep_ms nat
  | Xfer_value_get
  | Xfer_init_OUT int
  | Xfer_value_set int
  | Xfer_init_IN_PULL_UP
  | I2C_readfrom_mem int int nat
  | I2C_writeto_mem int int "int list"

record hw =
  xfer_mode :: pin_mode
  xfer_out :: int
  n_polls :: nat
  n_writes :: nat
  log :: "hw_op list"

record env =
  xfer_at_poll :: "nat \<Rightarrow> int"
  xfer_at_read :: "nat \<Rightarrow> int"
  bus_read :: "nat \<Rightarrow> error + byte list"
  bus_write :: "nat \<Rightarrow> error option"

definition do_op :: "hw_op \<Rightarrow> hw \<Rightarrow> hw" where
  "do_op operation s = s\<lparr>log := log s @ [operation]\<rparr>"

subsection \<open>\<^verbatim>\<open>write_block\<close>\<close>

text \<open>\<^verbatim>\<open>bytes(data_bytes)\<close> raises ValueError on a value outside 0..255.\<close>

definition write_block :: "env \<Rightarrow> int \<Rightarrow> int list \<Rightarrow> hw \<Rightarrow> (error + unit) \<times> hw" where
  "write_block e reg data_bytes s =
     (if list_ex (\<lambda>b. b < 0 \<or> 255 < b) data_bytes then (Inl ValueError, s)
      else
        let s1 = (do_op (I2C_writeto_mem SW_ADDR reg data_bytes) s)\<lparr>n_writes := Suc (n_writes s)\<rparr>
        in case bus_write e (n_writes s) of
             Some err \<Rightarrow> (Inl err, s1)
           | None \<Rightarrow> (Inr (), s1))"

subsection \<open>\<^verbatim>\<open>read_frame_raw\<close>\<close>

text \<open>
  \<open>level\<close> is what \<^verbatim>\<open>pin_xfer.value()\<close> returns, \<open>reply\<close> the outcome of
  \<^verbatim>\<open>i2c.readfrom_mem(SW_ADDR, 0x00, 32)\<close>. The two statements of the \<^verbatim>\<open>finally\<close> block run
  on both ways out of the \<^verbatim>\<open>try\<close> block; after them the exception goes on to the caller,
  or the function returns the bytes.
\<close>

definition read_frame_raw ::
    "int \<Rightarrow> error + byte list \<Rightarrow> hw \<Rightarrow> (error + byte list option) \<times> hw" where
  "read_frame_raw level reply s =
     (let s1 = do_op Xfer_value_get s in
      if level \<noteq> 0 then (Inr None, s1)
      else
        let s2 = (do_op (Xfer_init_OUT 0) s1)\<lparr>xfer_mode := OUT, xfer_out := 0\<rparr>;
            s3 = do_op (I2C_readfrom_mem SW_ADDR 0x00 32) s2;
            s4 = (do_op (Xfer_value_set 1) s3)\<lparr>xfer_out := 1\<rparr>;
            s5 = (do_op Xfer_init_IN_PULL_UP s4)\<lparr>xfer_mode := IN_PULL_UP\<rparr>
        in case reply of
             Inl err \<Rightarrow> (Inl err, s5)
           | Inr rx \<Rightarrow> (Inr (Some rx), s5))"

subsection \<open>\<^verbatim>\<open>get_status_expect\<close>\<close>

text \<open>
  The test \<^verbatim>\<open>data and data[3] == SW_SYSTEM_STATUS and data[4] == cmd_id\<close>: \<^verbatim>\<open>None\<close> and the
  empty bytearray are false, and \<^verbatim>\<open>and\<close> reads \<^verbatim>\<open>data[4]\<close> only after \<^verbatim>\<open>data[3]\<close> matched.
\<close>

definition status_test :: "byte list option \<Rightarrow> int \<Rightarrow> error + bool" where
  "status_test data cmd_id =
     (case data of
        None \<Rightarrow> Inr False
      | Some d \<Rightarrow>
          if d = [] then Inr False
          else bind_err (getitem d 3) (\<lambda>d3.
                 if d3 = SW_SYSTEM_STATUS
                 then bind_err (getitem d 4) (\<lambda>d4. Inr (d4 = cmd_id))
                 else Inr False))"

text \<open>
  The loop \<^verbatim>\<open>for _ in range(tries)\<close>: recursion on the number of attempts left. The
  result is \<open>Inr True\<close> or \<open>Inr False\<close> as the function returns, or the exception of the
  bus read or of the indexing.
\<close>

fun get_status_expect :: "env \<Rightarrow> int \<Rightarrow> nat \<Rightarrow> hw \<Rightarrow> (error + bool) \<times> hw" where
  "get_status_expect e cmd_id 0 s = (Inr False, s)"
| "get_status_expect e cmd_id (Suc tries) s =
     (let k = n_polls s;
          s1 = (do_op Xfer_value_get (do_op (Sleep_ms 1) s))\<lparr>n_polls := Suc k\<rparr>
      in if xfer_at_poll e k = 0 then
           (case read_frame_raw (xfer_at_read e k) (bus_read e k) s1 of
              (Inl err, s2) \<Rightarrow> (Inl err, s2)
            | (Inr data, s2) \<Rightarrow>
                (case status_test data cmd_id of
                   Inl err \<Rightarrow> (Inl err, s2)
                 | Inr True \<Rightarrow> (Inr True, s2)
                 | Inr False \<Rightarrow> get_status_expect e cmd_id tries s2))
         else get_status_expect e cmd_id tries s1)"

text \<open>The default \<^verbatim>\<open>tries=10\<close>.\<close>

definition DEFAULT_TRIES :: nat where
  "DEFAULT_TRIES = 10"

subsection \<open>\<^verbatim>\<open>configure_runtime\<close>\<close>

definition bind_hw ::
    "(error + 'a) \<times> hw \<Rightarrow> ('a \<Rightarrow> hw \<Rightarrow> (error + 'b) \<times> hw) \<Rightarrow> (error + 'b) \<times> hw" where
  "bind_hw m f = (case m of (Inl err, s) \<Rightarrow> (Inl err, s) | (Inr v, s) \<Rightarrow> f v s)"

definition enable_mask :: int where
  "enable_mask = SW_DATA_DSP OR SW_DATA_GESTURE OR SW_DATA_TOUCH OR SW_DATA_AIRWHEEL OR SW_DATA_XYZ"

definition configure_runtime :: "env \<Rightarrow> hw \<Rightarrow> (error + unit) \<times> hw" where
  "configure_runtime e s =
     bind_hw (write_block e 0x10
        [0x00, 0x00, SW_SET_RUNTIME, 0x90, 0x00, 0x00, 0x00,
         0x20, 0x00, 0x00, 0x00,
         0x20, 0x00, 0x00, 0x00] s) (\<lambda>_ s.
     bind_hw (get_status_expect e SW_SET_RUNTIME DEFAULT_TRIES s) (\<lambda>ok s.
     if \<not> ok then (Inl (RuntimeError ''SET_RUNTIME (AirWheel) no status''), s) else
     bind_hw (write_block e 0x10
        [0x00, 0x00, SW_SET_RUNTIME, 0x85, 0x00, 0x00, 0x00,
         0x7F, 0x00, 0x00, 0x00,
         0x7F, 0x00, 0x00, 0x00] s) (\<lambda>_ s.
     bind_hw (get_status_expect e SW_SET_RUNTIME DEFAULT_TRIES s) (\<lambda>ok s.
     if \<not> ok then (Inl (RuntimeError ''SET_RUNTIME (gestures) no status''), s) else
     bind_hw (write_block e 0x10
        [0x00, 0x00, SW_SET_RUNTIME, 0xA0, 0x00, 0x00, 0x00,
         enable_mask, 0x00, 0x00, 0x00,
         enable_mask, 0x00, 0x00, 0x00] s) (\<lambda>_ s.
     bind_hw (get_status_expect e SW_SET_RUNTIME DEFAULT_TRIES s) (\<lambda>ok s.
     if \<not> ok then (Inl (RuntimeError ''SET_RUNTIME (data outputs) no status''), s) else
     bind_hw (write_block e 0x10
        [0x00, 0x00, SW_SET_RUNTIME, 0x80, 0x00, 0x00, 0x00,
         0x00, 0x00, 0x00, 0x00,
         enable_mask, 0x00, 0x00, 0x00] s) (\<lambda>_ s.
     bind_hw (get_status_expect e SW_SET_RUNTIME DEFAULT_TRIES s) (\<lambda>ok s.
     if \<not> ok then (Inl (RuntimeError ''SET_RUNTIME (autocal off) no status''), s)
     else (Inr (), s)))))))))"

section \<open>Notions of the specification\<close>

text \<open>
  The fields of a sensor-data payload that the specification names: the 16-bit
  little-endian ConfigMask of bytes 0 and 1, the SystemInfo byte 3 and the 16-bit
  little-endian touch action field of bytes 10 and 11. A flag holds when its bit is set.
\<close>

definition configmask_of :: "byte list \<Rightarrow> int" where
  "configmask_of payload = uint (payload ! 0) OR push_bit 8 (uint (payload ! 1))"

definition sysinfo_of :: "byte list \<Rightarrow> int" where
  "sysinfo_of payload = uint (payload ! 3)"

definition action_of :: "byte list \<Rightarrow> int" where
  "action_of payload = push_bit 8 (uint (payload ! 11)) OR uint (payload ! 10)"

definition has_flag :: "int \<Rightarrow> int \<Rightarrow> bool" where
  "has_flag bits flag = ((bits AND flag) \<noteq> 0)"

fun is_XYZ :: "line \<Rightarrow> bool" where
  "is_XYZ (XYZ x y z) = True"
| "is_XYZ _ = False"

fun is_TOUCH :: "line \<Rightarrow> bool" where
  "is_TOUCH (TOUCH k p) = True"
| "is_TOUCH (TOUCH_bit i) = True"
| "is_TOUCH _ = False"

text \<open>
  The highest-numbered set bit of the 15-bit action field: the first set bit found when
  scanning from bit 14 down to bit 0.
\<close>

definition highest_bit15 :: "int \<Rightarrow> nat option" where
  "highest_bit15 a = find (bit a) (rev [0..<15])"

subsection \<open>Polling and configuration\<close>

text \<open>
  The \<open>k\<close>-th polling attempt yields a matching status frame: the line is low at both
  samples and the frame read has the identifier SYSTEM_STATUS and the command id as its
  first payload byte.
\<close>

definition poll_matches :: "env \<Rightarrow> int \<Rightarrow> nat \<Rightarrow> bool" where
  "poll_matches e cmd_id k =
     (xfer_at_poll e k = 0 \<and> xfer_at_read e k = 0 \<and>
      (case bus_read e k of
         Inl err \<Rightarrow> False
       | Inr d \<Rightarrow> uint (d ! 3) = SW_SYSTEM_STATUS \<and> uint (d ! 4) = cmd_id))"

text \<open>
  The number of attempts, starting with attempt \<open>p\<close> and at most \<open>n\<close>, up to and including
  the first one that yields a matching frame.
\<close>

fun polls_until_ack :: "env \<Rightarrow> int \<Rightarrow> nat \<Rightarrow> nat \<Rightarrow> nat option" where
  "polls_until_ack e cmd_id p 0 = None"
| "polls_until_ack e cmd_id p (Suc n) =
     (if poll_matches e cmd_id p then Some 1
      else map_option Suc (polls_until_ack e cmd_id (Suc p) n))"

text \<open>The number of polling attempts a log shows: each starts with \<^verbatim>\<open>time.sleep_ms(1)\<close>.\<close>

definition attempts :: "hw_op list \<Rightarrow> nat" where
  "attempts l = length (filter (\<lambda>x. x = Sleep_ms 1) l)"

fun is_write :: "hw_op \<Rightarrow> bool" where
  "is_write (I2C_writeto_mem a r d) = True"
| "is_write _ = False"

definition writes_of :: "hw_op list \<Rightarrow> hw_op list" where
  "writes_of l = filter is_write l"

text \<open>The block writes and the starts of polling attempts of a log, in order.\<close>

definition trace_of :: "hw_op list \<Rightarrow> hw_op list" where
  "trace_of l = filter (\<lambda>x. is_write x \<or> x = Sleep_ms 1) l"

text \<open>
  The four configuration commands of the specification, in order: 15 bytes each,
  \<open>[0, 0, cmd_id, arg_addr, 0, 0, 0]\<close>, then two arguments of four bytes; and the name by
  which the error message identifies the step.
\<close>

definition CONFIG_BLOCKS :: "int list list" where
  "CONFIG_BLOCKS =
    [[0x00, 0x00, 0xA2, 0x90, 0x00, 0x00, 0x00,  0x20, 0x00, 0x00, 0x00,  0x20, 0x00, 0x00, 0x00],
     [0x00, 0x00, 0xA2, 0x85, 0x00, 0x00, 0x00,  0x7F, 0x00, 0x00, 0x00,  0x7F, 0x00, 0x00, 0x00],
     [0x00, 0x00, 0xA2, 0xA0, 0x00, 0x00, 0x00,  0x1F, 0x00, 0x00, 0x00,  0x1F, 0x00, 0x00, 0x00],
     [0x00, 0x00, 0xA2, 0x80, 0x00, 0x00, 0x00,  0x00, 0x00, 0x00, 0x00,  0x1F, 0x00, 0x00, 0x00]]"

definition CONFIG_WRITES :: "hw_op list" where
  "CONFIG_WRITES = map (I2C_writeto_mem 0x42 0x10) CONFIG_BLOCKS"

definition CONFIG_ERRORS :: "error list" where
  "CONFIG_ERRORS =
    [RuntimeError ''SET_RUNTIME (AirWheel) no status'',
     RuntimeError ''SET_RUNTIME (gestures) no status'',
     RuntimeError ''SET_RUNTIME (data outputs) no status'',
     RuntimeError ''SET_RUNTIME (autocal off) no status'']"

text \<open>
  The first of the steps \<open>i, i + 1, \<dots>\<close> (\<open>n\<close> of them) whose acknowledgement wait, which
  starts at polling attempt \<open>p\<close> and has 10 attempts, sees no matching frame.
\<close>

fun failing_step :: "env \<Rightarrow> nat \<Rightarrow> nat \<Rightarrow> nat \<Rightarrow> nat option" where
  "failing_step e p i 0 = None"
| "failing_step e p i (Suc n) =
     (case polls_until_ack e 0xA2 p 10 of
        None \<Rightarrow> Some i
      | Some j \<Rightarrow> failing_step e (p + j) (Suc i) n)"

text \<open>
  What the specification lets the bus see of \<open>configure()\<close>: each block written, then the
  attempts of its acknowledgement wait; nothing after a wait that ran out.
\<close>

fun expected_trace :: "env \<Rightarrow> nat \<Rightarrow> int list list \<Rightarrow> hw_op list" where
  "expected_trace e p [] = []"
| "expected_trace e p (b # bs) =
     I2C_writeto_mem 0x42 0x10 b #
     (case polls_until_ack e 0xA2 p 10 of
        None \<Rightarrow> replicate 10 (Sleep_ms 1)
      | Some j \<Rightarrow> replicate j (Sleep_ms 1) @ expected_trace e (p + j) bs)"

text \<open>The state after one step: the block written and its acknowledgement wait over.\<close>

definition after_step :: "env \<Rightarrow> int list \<Rightarrow> hw \<Rightarrow> hw" where
  "after_step e b s =
     snd (get_status_expect e SW_SET_RUNTIME DEFAULT_TRIES (snd (write_block e 0x10 b s)))"

subsection \<open>Example environments\<close>

text \<open>A status frame that echoes SET_RUNTIME, and a sensor-data frame.\<close>

definition status_frame :: "byte list" where
  "status_frame = [0x1E,0x00,0x00,0x15, 0xA2] @ replicate 27 0"

definition other_frame :: "byte list" where
  "other_frame = [0x1E,0x00,0x00,0x91, 0x1F] @ replicate 27 0"

text \<open>
  The line is always low and every write succeeds. \<open>env_silent\<close> never sends a status
  frame; \<open>env_ack_at ks\<close> sends one at the polling attempts of \<open>ks\<close>.
\<close>

definition env_silent :: env where
  "env_silent = \<lparr>xfer_at_poll = (\<lambda>k. 0), xfer_at_read = (\<lambda>k. 0),
     bus_read = (\<lambda>k. Inr other_frame), bus_write = (\<lambda>k. None)\<rparr>"

definition env_ack_at :: "nat list \<Rightarrow> env" where
  "env_ack_at ks = \<lparr>xfer_at_poll = (\<lambda>k. 0), xfer_at_read = (\<lambda>k. 0),
     bus_read = (\<lambda>k. if k \<in> set ks then Inr status_frame else Inr other_frame),
     bus_write = (\<lambda>k. None)\<rparr>"

definition hw_init :: hw where
  "hw_init = \<lparr>xfer_mode = IN_PULL_UP, xfer_out = 1, n_polls = 0, n_writes = 0, log = []\<rparr>"

subsection \<open>Example frames\<close>

text \<open>Touch action field 0x4808: bits 14, 11 and 3.\<close>

definition frame_touch_14_11_3 :: "byte list" where
  "frame_touch_14_11_3 =
     [0x1E,0x00,0x00,0x91, 0x1F,0x00, 0x00, 0x03, 0x00,0x00, 0x01,0x00,0x00,0x00,
      0x08,0x48,0x00,0x00, 0x10,0x00, 0x80,0x80,0x80,0x80,0x80,0x80, 0,0,0,0,0,0]"

text \<open>ConfigMask 0x1F, SystemInfo 0x02: XYZ announced, position not valid.\<close>

definition frame_xyz_not_valid :: "byte list" where
  "frame_xyz_not_valid =
     [0x1E,0x00,0x00,0x91, 0x1F,0x00, 0x00, 0x02, 0x00,0x00, 0x01,0x00,0x00,0x00,
      0x00,0x00,0x00,0x00, 0x10,0x00, 0x80,0x80,0x80,0x80,0x80,0x80, 0,0,0,0,0,0]"

text \<open>Touch action field 0x8000: bit 15 only.\<close>

definition frame_touch_bit15 :: "byte list" where
  "frame_touch_bit15 =
     [0x1E,0x00,0x00,0x91, 0x1F,0x00, 0x00, 0x03, 0x00,0x00, 0x00,0x00,0x00,0x00,
      0x00,0x80,0x00,0x00, 0x10,0x00, 0x80,0x80,0x80,0x80,0x80,0x80, 0,0,0,0,0,0]"

text \<open>
  A FIRMWARE_VERSION frame of 32 bytes whose text at \<^verbatim>\<open>payload[8:]\<close> is \<^verbatim>\<open>"1.0"\<close> followed by
  NUL bytes.
\<close>

definition frame_fw_version :: "byte list" where
  "frame_fw_version =
     [0x1E,0x00,0x00,0x83, 0,0,0,0,0,0,0,0, 0x31, 0x2E, 0x30] @ replicate 17 0"

section \<open>The decoder\<close>

subsection \<open>Sensor-data payloads long enough for every field\<close>

lemma getitem_in: "i < length xs \<Longrightarrow> getitem xs i = Inr (uint (xs ! i))"
  by (simp add: getitem_def)

lemma bind_err_Inr: "bind_err (Inr v) f = f v"
  by (simp add: bind_err_def)

lemma has_flag_bit: "has_flag x (push_bit n 1) = bit x n"
  by (simp add: has_flag_def bit_iff_and_push_bit_not_eq_0)

lemma flag_bits:
  "has_flag x SW_DATA_GESTURE = bit x 1"
  "has_flag x SW_DATA_TOUCH = bit x 2"
  "has_flag x SW_DATA_AIRWHEEL = bit x 3"
  "has_flag x SW_DATA_XYZ = bit x 4"
  "has_flag x SYS_POSITION_VALID = bit x 0"
  "has_flag x SYS_AIRWHEEL_VALID = bit x 1"
  by (simp_all only: SW_DATA_GESTURE_def SW_DATA_TOUCH_def SW_DATA_AIRWHEEL_def SW_DATA_XYZ_def
      SYS_POSITION_VALID_def SYS_AIRWHEEL_VALID_def has_flag_bit)

lemma handle_sensor_data_long:
  assumes "22 \<le> length payload"
  shows "handle_sensor_data payload =
    ((if has_flag (configmask_of payload) SW_DATA_XYZ
         \<and> has_flag (sysinfo_of payload) SYS_POSITION_VALID
      then [XYZ (normalize_0_1 (u16 (uint (payload ! 16)) (uint (payload ! 17))))
                (normalize_0_1 (u16 (uint (payload ! 18)) (uint (payload ! 19))))
                (normalize_0_1 (u16 (uint (payload ! 20)) (uint (payload ! 21))))]
      else []) @
     (if has_flag (configmask_of payload) SW_DATA_GESTURE \<and> uint (payload ! 6) \<noteq> 0
      then [gesture_line (uint (payload ! 6))] else []) @
     (if has_flag (configmask_of payload) SW_DATA_TOUCH
      then touch_scan (action_of payload) (push_bit 14 1) [0..<16] else []) @
     (if has_flag (configmask_of payload) SW_DATA_AIRWHEEL
         \<and> has_flag (sysinfo_of payload) SYS_AIRWHEEL_VALID
      then [AIRWHEEL (uint (payload ! 14))] else []), None)"
proof -
  have g: "\<And>i. i < 22 \<Longrightarrow> getitem payload i = Inr (uint (payload ! i))"
    using assms by (simp add: getitem_in)
  show ?thesis
    by (simp add: handle_sensor_data_def xyz_block_def gesture_block_def touch_block_def
        airwheel_block_def g bind_err_Inr has_flag_def configmask_of_def sysinfo_of_def
        action_of_def Let_def)
qed

lemma process_frame_sensor:
  "4 \<le> length frame \<Longrightarrow> uint (frame ! 3) = SW_SENSOR_DATA \<Longrightarrow>
   process_frame (Some frame) = handle_sensor_data (drop 4 frame)"
  by (auto simp: process_frame_def Let_def)

subsection \<open>The touch scan\<close>

lemma touch_scan_only_touch: "\<forall>l \<in> set (touch_scan a c idxs). is_TOUCH l"
  by (induction idxs arbitrary: c) auto

lemma filter_touch_scan: "filter is_TOUCH (touch_scan a c idxs) = touch_scan a c idxs"
  using touch_scan_only_touch [of a c idxs] by (simp add: filter_id_conv)

lemma filter_xyz_touch_scan: "filter is_XYZ (touch_scan a c idxs) = []"
  by (induction idxs arbitrary: c) auto

lemma gesture_line_not: "\<not> is_XYZ (gesture_line g)" "\<not> is_TOUCH (gesture_line g)"
  by (auto simp: gesture_line_def split: option.splits prod.splits)

text \<open>
  With \<open>n\<close> indices of the table left, the mask is \<open>2 ^ (n - 1)\<close>; at the sixteenth index
  it is 0 and matches nothing.
\<close>

lemma touch_scan_step:
  "n \<le> 15 \<Longrightarrow>
   touch_scan a (if n = 0 then 0 else 2 ^ (n - 1)) [15 - n..<16] =
     (case find (bit a) (rev [0..<n]) of
        None \<Rightarrow> []
      | Some b \<Rightarrow> [TOUCH (fst (TOUCH_ACTIONS ! (14 - b))) (snd (TOUCH_ACTIONS ! (14 - b)))])"
proof (induction n)
  case 0
  then show ?case by simp
next
  case (Suc n)
  then have n: "n \<le> 14" by simp
  have s: "Suc (14 - n) = 15 - n" "15 - Suc n = 14 - n"
    using n by arith+
  have "[14 - n..<16] = (14 - n) # [Suc (14 - n)..<16]"
    by (rule upt_conv_Cons) simp
  then have l: "[14 - n..<16] = (14 - n) # [15 - n..<16]"
    by (simp only: s)
  have t: "((a AND 2 ^ n) \<noteq> 0) = bit a n"
    by (simp add: bit_iff_and_push_bit_not_eq_0 push_bit_eq_mult)
  have d: "drop_bit 1 ((2::int) ^ n) = (if n = 0 then 0 else 2 ^ (n - 1))"
    by (cases n) (simp_all add: drop_bit_eq_div)
  have len: "14 - n < length TOUCH_ACTIONS"
    by (simp add: TOUCH_ACTIONS_def)
  have lhs: "touch_scan a (2 ^ n) [14 - n..<16] =
      (if bit a n then [TOUCH (fst (TOUCH_ACTIONS ! (14 - n))) (snd (TOUCH_ACTIONS ! (14 - n)))]
       else touch_scan a (if n = 0 then 0 else 2 ^ (n - 1)) [15 - n..<16])"
    by (simp only: l touch_scan.simps t d len if_True)
  have rhs: "find (bit a) (rev [0..<Suc n]) =
      (if bit a n then Some n else find (bit a) (rev [0..<n]))"
    by simp
  have ih: "touch_scan a (if n = 0 then 0 else 2 ^ (n - 1)) [15 - n..<16] =
     (case find (bit a) (rev [0..<n]) of
        None \<Rightarrow> []
      | Some b \<Rightarrow> [TOUCH (fst (TOUCH_ACTIONS ! (14 - b))) (snd (TOUCH_ACTIONS ! (14 - b)))])"
    using Suc.IH n by simp
  have "touch_scan a (if Suc n = 0 then 0 else 2 ^ (Suc n - 1)) [15 - Suc n..<16] =
      touch_scan a (2 ^ n) [14 - n..<16]"
    by simp
  also have "\<dots> = (case find (bit a) (rev [0..<Suc n]) of
        None \<Rightarrow> []
      | Some b \<Rightarrow> [TOUCH (fst (TOUCH_ACTIONS ! (14 - b))) (snd (TOUCH_ACTIONS ! (14 - b)))])"
    unfolding lhs rhs ih by simp
  finally show ?case .
qed

lemma touch_scan_highest:
  "touch_scan a (push_bit 14 1) [0..<16] =
     (case highest_bit15 a of
        None \<Rightarrow> []
      | Some b \<Rightarrow> [TOUCH (fst (TOUCH_ACTIONS ! (14 - b))) (snd (TOUCH_ACTIONS ! (14 - b)))])"
  using touch_scan_step [of 15 a] by (simp add: highest_bit15_def)

lemma touch_scan_highest_num:
  "touch_scan a 16384 [0..<16] =
     (case highest_bit15 a of
        None \<Rightarrow> []
      | Some b \<Rightarrow> [TOUCH (fst (TOUCH_ACTIONS ! (14 - b))) (snd (TOUCH_ACTIONS ! (14 - b)))])"
  using touch_scan_highest [of a] by simp

text \<open>
  \<open>highest_bit15\<close> is the largest set bit below 15.
\<close>

lemma find_rev_upt_Some:
  "find P (rev [0..<n]) = Some b \<longleftrightarrow> b < n \<and> P b \<and> (\<forall>j. b < j \<and> j < n \<longrightarrow> \<not> P j)"
proof (induction n)
  case 0
  then show ?case by simp
next
  case (Suc n)
  show ?case
  proof (cases "P n")
    case True
    then show ?thesis
      by (auto simp: less_Suc_eq)
  next
    case False
    then show ?thesis
      using Suc by (auto simp: less_Suc_eq)
  qed
qed

lemma highest_bit15_Some:
  "highest_bit15 a = Some b \<longleftrightarrow> b < 15 \<and> bit a b \<and> (\<forall>j. b < j \<and> j < 15 \<longrightarrow> \<not> bit a j)"
  unfolding highest_bit15_def by (rule find_rev_upt_Some)

lemma touch_lines_long:
  assumes "22 \<le> length payload"
  shows "filter is_TOUCH (fst (handle_sensor_data payload)) =
     (if bit (configmask_of payload) 2
      then (case highest_bit15 (action_of payload) of
              None \<Rightarrow> []
            | Some b \<Rightarrow> [TOUCH (fst (TOUCH_ACTIONS ! (14 - b))) (snd (TOUCH_ACTIONS ! (14 - b)))])
      else [])"
  by (simp add: handle_sensor_data_long [OF assms] gesture_line_not filter_touch_scan
      flag_bits touch_scan_highest_num [symmetric])

lemma xyz_lines_long:
  assumes "22 \<le> length payload"
  shows "filter is_XYZ (fst (handle_sensor_data payload)) =
     (if bit (configmask_of payload) 4 \<and> bit (sysinfo_of payload) 0
      then [XYZ (normalize_0_1 (u16 (uint (payload ! 16)) (uint (payload ! 17))))
                (normalize_0_1 (u16 (uint (payload ! 18)) (uint (payload ! 19))))
                (normalize_0_1 (u16 (uint (payload ! 20)) (uint (payload ! 21))))]
      else [])"
  by (simp add: handle_sensor_data_long [OF assms] gesture_line_not filter_xyz_touch_scan
      flag_bits)

lemma normalize_8080: "normalize_0_1 0x8080 = 0.502"
  by (simp add: normalize_0_1_def py_round_def round_half_even_def Let_def)

subsection \<open>The example frame of the specification\<close>

text \<open>
  C1 (amended). The frame whose bytes stand at the decoder's offsets (SystemInfo
  0x03 at payload byte 3, gesture class 1 at byte 6, touch bytes 10 and 11 zero,
  air-wheel 0x10 at byte 14, x, y and z 0x8080 at bytes 16 to 21), followed by any
  trailing bytes, decodes to exactly three lines: the position with x, y and z 0.5020,
  the gesture "garbage" and the air-wheel value 0x10; no touch line. The byte list as the
  specification writes it has SystemInfo 0x01, gesture byte 0, touch action field 0x0010
  and only x at bytes 16 and 17: it decodes to the position with x 0.5020 and y, z taken
  from the first four trailing bytes, and the touch line "touch center"; no gesture and
  no air-wheel line.
\<close>

theorem decode_example_frame:
  "process_frame (Some ([0x1E,0x00,0x00,0x91, 0x1F,0x00, 0x00, 0x03, 0x00,0x00,
       0x01,0x00,0x00,0x00, 0x00,0x00,0x00,0x00, 0x10,0x00,
       0x80,0x80,0x80,0x80,0x80,0x80] @ trailing)) =
     ([XYZ 0.502 0.502 0.502, GESTURE_kind ''garbage'', AIRWHEEL 0x10], None)
   \<and>
   process_frame (Some ([0x1E,0x00,0x00,0x91, 0x1F,0x00, 0x00, 0x01, 0x00,0x00,
       0x00,0x00,0x00,0x00, 0x10, 0x00, 0x80,0x80,0x80,0x80,0x80,0x80]
       @ t0 # t1 # t2 # t3 # trailing)) =
     ([XYZ 0.502 (normalize_0_1 (u16 (uint t0) (uint t1)))
                 (normalize_0_1 (u16 (uint t2) (uint t3))),
       TOUCH ''touch'' ''center''], None)"
proof -
  have u: "u16 128 128 = 0x8080" by (simp add: u16_def)
  have g: "gesture_line 1 = GESTURE_kind ''garbage''"
    by (simp add: gesture_line_def GESTURES_def)
  have h1: "highest_bit15 0 = None" by (simp add: highest_bit15_def upt_rec)
  have h2: "highest_bit15 16 = Some 4" by (simp add: highest_bit15_def upt_rec)
  show ?thesis
    apply (rule conjI)
     apply (simp add: process_frame_def SW_SENSOR_DATA_def Let_def handle_sensor_data_long
        has_flag_def configmask_of_def sysinfo_of_def action_of_def SW_DATA_XYZ_def
        SYS_POSITION_VALID_def SW_DATA_GESTURE_def SW_DATA_TOUCH_def SW_DATA_AIRWHEEL_def
        SYS_AIRWHEEL_VALID_def u g h1 normalize_8080 touch_scan_highest_num nth_append)
    apply (simp add: process_frame_def SW_SENSOR_DATA_def Let_def handle_sensor_data_long
        has_flag_def configmask_of_def sysinfo_of_def action_of_def SW_DATA_XYZ_def
        SYS_POSITION_VALID_def SW_DATA_GESTURE_def SW_DATA_TOUCH_def SW_DATA_AIRWHEEL_def
        SYS_AIRWHEEL_VALID_def u g h2 normalize_8080 touch_scan_highest_num nth_append
        TOUCH_ACTIONS_def)
    done
qed

text \<open>
  C1 as stated fails: the 32-byte frame that starts with the bytes of the specification
  and goes on with 0x80 four times and six zero bytes prints the position and
  "touch center", not the position, a gesture and an air-wheel value.
\<close>

theorem decode_example_frame_counterexample:
  "process_frame (Some [0x1E,0x00,0x00,0x91, 0x1F,0x00, 0x00, 0x01, 0x00,0x00,
       0x00,0x00,0x00,0x00, 0x10, 0x00, 0x80,0x80,0x80,0x80,0x80,0x80,
       0x80,0x80,0x80,0x80,0x00,0x00,0x00,0x00,0x00,0x00]) =
     ([XYZ 0.502 0.502 0.502, TOUCH ''touch'' ''center''], None)
   \<and> process_frame (Some [0x1E,0x00,0x00,0x91, 0x1F,0x00, 0x00, 0x01, 0x00,0x00,
       0x00,0x00,0x00,0x00, 0x10, 0x00, 0x80,0x80,0x80,0x80,0x80,0x80,
       0x80,0x80,0x80,0x80,0x00,0x00,0x00,0x00,0x00,0x00]) \<noteq>
     ([XYZ 0.502 0.502 0.502, GESTURE_kind ''garbage'', AIRWHEEL 0x10], None)"
proof -
  have u: "u16 128 128 = 0x8080" by (simp add: u16_def)
  have h2: "highest_bit15 16 = Some 4" by (simp add: highest_bit15_def upt_rec)
  show ?thesis
    by (simp add: process_frame_def SW_SENSOR_DATA_def Let_def handle_sensor_data_long
        has_flag_def configmask_of_def sysinfo_of_def action_of_def SW_DATA_XYZ_def
        SYS_POSITION_VALID_def SW_DATA_GESTURE_def SW_DATA_TOUCH_def SW_DATA_AIRWHEEL_def
        SYS_AIRWHEEL_VALID_def u h2 normalize_8080 touch_scan_highest_num
        TOUCH_ACTIONS_def)
qed

subsection \<open>Touch\<close>

text \<open>
  C3. A sensor-data frame long enough for every field (26 bytes; the transport reads 32)
  with ConfigMask.TOUCH set prints at most one touch line: none when no bit below 15 of
  the action field is set, and otherwise the entry \<open>14 - b\<close> of \<open>TOUCH_ACTIONS\<close> for the
  highest set bit \<open>b\<close> below 15, found scanning from bit 14 down to bit 0.
\<close>

theorem touch_highest_bit_wins:
  assumes "26 \<le> length frame" and "uint (frame ! 3) = SW_SENSOR_DATA"
    and "bit (configmask_of (drop 4 frame)) 2"
  shows "filter is_TOUCH (fst (process_frame (Some frame))) =
           (case highest_bit15 (action_of (drop 4 frame)) of
              None \<Rightarrow> []
            | Some b \<Rightarrow> [TOUCH (fst (TOUCH_ACTIONS ! (14 - b))) (snd (TOUCH_ACTIONS ! (14 - b)))])
         \<and> length (filter is_TOUCH (fst (process_frame (Some frame)))) \<le> 1"
proof -
  have len: "22 \<le> length (drop 4 frame)" using assms(1) by simp
  have pf: "process_frame (Some frame) = handle_sensor_data (drop 4 frame)"
    using assms by (simp add: process_frame_sensor)
  show ?thesis
    by (simp add: pf touch_lines_long [OF len] assms(3) split: option.split)
qed

text \<open>With bits 14, 11 and 3 set the only touch line is "doubletap center".\<close>

theorem touch_highest_bit_wins_witness:
  "action_of (drop 4 frame_touch_14_11_3) = 0x4808 \<and>
   filter is_TOUCH (fst (process_frame (Some frame_touch_14_11_3))) =
     [TOUCH ''doubletap'' ''center'']"
proof -
  have a: "action_of (drop 4 frame_touch_14_11_3) = 0x4808"
    by (simp add: frame_touch_14_11_3_def action_of_def)
  have h: "highest_bit15 0x4808 = Some 14"
    by (simp add: highest_bit15_def upt_rec)
  show ?thesis
    using touch_highest_bit_wins [of frame_touch_14_11_3]
    by (simp add: a h)
       (simp add: frame_touch_14_11_3_def configmask_of_def SW_SENSOR_DATA_def TOUCH_ACTIONS_def)
qed

text \<open>
  C10. A sensor-data frame (26 bytes or more) with ConfigMask.TOUCH set and the action
  field 0x8000 prints no touch line: the scan starts at bit 14.
\<close>

theorem bit15_never_examined:
  assumes "26 \<le> length frame" and "uint (frame ! 3) = SW_SENSOR_DATA"
    and "bit (configmask_of (drop 4 frame)) 2"
    and "action_of (drop 4 frame) = 0x8000"
  shows "filter is_TOUCH (fst (process_frame (Some frame))) = []"
proof -
  have len: "22 \<le> length (drop 4 frame)" using assms(1) by simp
  have pf: "process_frame (Some frame) = handle_sensor_data (drop 4 frame)"
    using assms by (simp add: process_frame_sensor)
  have "highest_bit15 0x8000 = None"
    by (simp add: highest_bit15_def upt_rec)
  then show ?thesis
    by (simp add: pf touch_lines_long [OF len] assms(3,4))
qed

theorem bit15_never_examined_witness:
  "action_of (drop 4 frame_touch_bit15) = 0x8000 \<and>
   filter is_TOUCH (fst (process_frame (Some frame_touch_bit15))) = []"
  using bit15_never_examined [of frame_touch_bit15]
  by (simp add: frame_touch_bit15_def configmask_of_def action_of_def SW_SENSOR_DATA_def)

subsection \<open>Position\<close>

text \<open>
  C7. A sensor-data frame (26 bytes or more) prints a position line if and only if
  ConfigMask.XYZ (bit 4) and SystemInfo.POSITION_VALID (bit 0) are both set.
\<close>

theorem position_iff_xyz_and_valid:
  assumes "26 \<le> length frame" and "uint (frame ! 3) = SW_SENSOR_DATA"
  shows "(\<exists>l \<in> set (fst (process_frame (Some frame))). is_XYZ l) =
         (bit (configmask_of (drop 4 frame)) 4 \<and> bit (sysinfo_of (drop 4 frame)) 0)"
proof -
  have len: "22 \<le> length (drop 4 frame)" using assms(1) by simp
  have pf: "process_frame (Some frame) = handle_sensor_data (drop 4 frame)"
    using assms by (simp add: process_frame_sensor)
  have "(\<exists>l \<in> set (fst (process_frame (Some frame))). is_XYZ l) =
        (filter is_XYZ (fst (handle_sensor_data (drop 4 frame))) \<noteq> [])"
    by (simp add: pf filter_empty_conv)
  then show ?thesis
    by (simp only: xyz_lines_long [OF len]) simp
qed

text \<open>ConfigMask.XYZ set and POSITION_VALID clear: no position line.\<close>

theorem position_iff_xyz_and_valid_witness:
  "bit (configmask_of (drop 4 frame_xyz_not_valid)) 4 \<and>
   \<not> bit (sysinfo_of (drop 4 frame_xyz_not_valid)) 0 \<and>
   \<not> (\<exists>l \<in> set (fst (process_frame (Some frame_xyz_not_valid))). is_XYZ l)"
  using position_iff_xyz_and_valid [of frame_xyz_not_valid]
  by (simp add: frame_xyz_not_valid_def configmask_of_def sysinfo_of_def SW_SENSOR_DATA_def)

subsection \<open>Short sensor-data frames\<close>

text \<open>
  C9. The only length check is the one for 4 bytes: there is a frame of at least 4 and
  fewer than 26 bytes with identifier 0x91, ConfigMask.XYZ and POSITION_VALID set, whose
  decoding ends in IndexError (at payload byte 21), having printed nothing.
\<close>

theorem short_sensor_frame_raises:
  "\<exists>frame. 4 \<le> length frame \<and> length frame < 26 \<and> uint (frame ! 3) = SW_SENSOR_DATA \<and>
     bit (configmask_of (drop 4 frame)) 4 \<and> bit (sysinfo_of (drop 4 frame)) 0 \<and>
     process_frame (Some frame) = ([], Some IndexError)"
proof -
  let ?f = "[0x1E,0x00,0x00,0x91, 0x1F,0x00, 0x00, 0x03, 0x00,0x00, 0x01,0x00,0x00,0x00,
     0,0,0,0, 0x10, 0x00, 0x80,0x80,0x80,0x80,0x80] :: byte list"
  have "process_frame (Some ?f) = ([], Some IndexError)"
    by (simp add: process_frame_def SW_SENSOR_DATA_def handle_sensor_data_def getitem_def
        xyz_block_def bind_err_def SW_DATA_XYZ_def SYS_POSITION_VALID_def Let_def)
  moreover have "bit (configmask_of (drop 4 ?f)) 4 \<and> bit (sysinfo_of (drop 4 ?f)) 0"
    by (simp add: configmask_of_def sysinfo_of_def)
  ultimately show ?thesis
    by (intro exI [of _ ?f]) (simp add: SW_SENSOR_DATA_def)
qed

subsection \<open>Normalisation\<close>

lemma rhe_floor_le: "\<lfloor>x\<rfloor> \<le> round_half_even x"
  by (simp add: round_half_even_def Let_def)

lemma rhe_le_floor_Suc: "round_half_even x \<le> \<lfloor>x\<rfloor> + 1"
  by (simp add: round_half_even_def Let_def)

lemma rhe_upper:
  assumes "x < of_int k + 1 / 2" shows "round_half_even x \<le> k"
proof (cases "\<lfloor>x\<rfloor> < k")
  case True
  then show ?thesis using rhe_le_floor_Suc [of x] by linarith
next
  case False
  have "\<lfloor>x\<rfloor> \<le> k" using assms by (simp add: floor_le_iff)
  with False have f: "\<lfloor>x\<rfloor> = k" by simp
  then have "x - of_int \<lfloor>x\<rfloor> < 1 / 2" using assms by simp
  then show ?thesis by (simp add: round_half_even_def Let_def f)
qed

lemma rhe_lower:
  assumes "of_int k - 1 / 2 < x" shows "k \<le> round_half_even x"
proof (cases "k \<le> \<lfloor>x\<rfloor>")
  case True
  then show ?thesis using rhe_floor_le [of x] by linarith
next
  case False
  have "of_int k - 1 < x" using assms by linarith
  then have "k - 1 \<le> \<lfloor>x\<rfloor>" by (simp add: le_floor_iff)
  with False have f: "\<lfloor>x\<rfloor> = k - 1" by simp
  then have "1 / 2 < x - of_int \<lfloor>x\<rfloor>" using assms by simp
  then show ?thesis by (simp add: round_half_even_def Let_def f)
qed

lemma rhe_near: "\<bar>of_int (round_half_even x) - x\<bar> \<le> 1 / 2"
  unfolding round_half_even_def Let_def
  by (auto simp: abs_le_iff)

text \<open>
  C2 (amended). For every 16-bit value \<open>v\<close>, \<open>normalize_0_1 v\<close> is \<open>v / 65536\<close> rounded to
  four decimals: a multiple of 0.0001 within 0.00005 of \<open>v / 65536\<close>. It lies between 0
  and 1, both included, and is below 1 exactly when \<open>v \<le> 65532\<close>; the values 65533 to
  65535 round up to 1. It is 0 at 0 and 1 at 65535.
\<close>

theorem normalize_range:
  assumes "0 \<le> v" and "v \<le> 65535"
  shows "normalize_0_1 v = py_round (of_int v / 65536) 4 \<and>
         0 \<le> normalize_0_1 v \<and> normalize_0_1 v \<le> 1 \<and>
         (normalize_0_1 v < 1) = (v \<le> 65532) \<and>
         (\<exists>k. normalize_0_1 v = of_int k / 10000) \<and>
         \<bar>normalize_0_1 v - of_int v / 65536\<bar> \<le> 1 / 20000 \<and>
         normalize_0_1 0 = 0 \<and> normalize_0_1 65535 = 1"
proof -
  let ?x = "of_int v / 65536 * 10 ^ 4 :: real"
  let ?r = "round_half_even ?x"
  have n: "normalize_0_1 v = of_int ?r / 10000"
    by (simp add: normalize_0_1_def py_round_def)
  have x0: "0 \<le> ?x" using assms(1) by simp
  have "0 \<le> \<lfloor>?x\<rfloor>" using x0 by (simp only: zero_le_floor)
  then have r0: "0 \<le> ?r" using rhe_floor_le [of ?x] by linarith
  have "?x < of_int 10000 + 1 / 2" using assms(2) by simp
  then have r1: "?r \<le> 10000" by (rule rhe_upper)
  have lt: "?r \<le> 9999" if "v \<le> 65532"
  proof -
    have "?x < of_int 9999 + 1 / 2" using that by simp
    then show ?thesis by (rule rhe_upper)
  qed
  have ge: "10000 \<le> ?r" if "65533 \<le> v"
  proof -
    have "of_int 10000 - 1 / 2 < ?x" using that by simp
    then show ?thesis by (rule rhe_lower)
  qed
  have iff: "(?r < 10000) = (v \<le> 65532)"
    using lt ge by fastforce
  have near: "\<bar>of_int ?r - ?x\<bar> \<le> 1 / 2" by (rule rhe_near)
  have "\<bar>real_of_int ?r / 10000 - real_of_int v / 65536\<bar> = \<bar>real_of_int ?r - ?x\<bar> / 10000"
    by (simp add: abs_if field_simps)
  also have "\<dots> \<le> (1 / 2) / 10000"
    using near by (simp only: divide_right_mono)
  finally have acc: "\<bar>real_of_int ?r / 10000 - real_of_int v / 65536\<bar> \<le> 1 / 20000"
    by simp
  have ends: "normalize_0_1 0 = 0 \<and> normalize_0_1 65535 = 1"
    by (simp add: normalize_0_1_def py_round_def round_half_even_def Let_def)
  have d: "normalize_0_1 v = py_round (of_int v / 65536) 4"
    by (simp add: normalize_0_1_def)
  have "0 \<le> normalize_0_1 v \<and> normalize_0_1 v \<le> 1 \<and>
         (normalize_0_1 v < 1) = (v \<le> 65532) \<and>
         (\<exists>k. normalize_0_1 v = of_int k / 10000) \<and>
         \<bar>normalize_0_1 v - of_int v / 65536\<bar> \<le> 1 / 20000"
    unfolding n using r0 r1 iff acc by (auto simp: field_simps)
  with ends d show ?thesis by blast
qed

theorem normalize_range_witness:
  "normalize_0_1 32896 = 0.502 \<and> normalize_0_1 65532 < 1 \<and> \<not> normalize_0_1 65533 < 1"
  using normalize_range [of 32896] normalize_range [of 65532] normalize_range [of 65533]
  by (simp add: normalize_0_1_def py_round_def round_half_even_def Let_def)

text \<open>
  C2 as stated fails at 65535: the result is 1, which is neither below 1 nor about
  0.9999.
\<close>

theorem normalize_counterexample:
  "normalize_0_1 65535 = 1 \<and> \<not> normalize_0_1 65535 < 1"
  by (simp add: normalize_0_1_def py_round_def round_half_even_def Let_def)

subsection \<open>Firmware text\<close>

text \<open>
  Every FIRMWARE_VERSION frame that passes the length check ends in TypeError, having
  printed nothing.
\<close>

lemma process_frame_fw_raises:
  "4 \<le> length frame \<Longrightarrow> uint (frame ! 3) = SW_FW_VERSION \<Longrightarrow>
   process_frame (Some frame) = ([], Some TypeError)"
  by (auto simp: process_frame_def Let_def SW_FW_VERSION_def SW_SENSOR_DATA_def
      SW_SYSTEM_STATUS_def)

text \<open>
  C8. The claim asks for the text of \<^verbatim>\<open>payload[8:]\<close>, stripped, and for a decode that does
  not fail. The code does not deliver it: on the 32-byte FIRMWARE_VERSION frame with the
  text \<^verbatim>\<open>"1.0"\<close> the decode raises TypeError and no line is printed.
\<close>

theorem firmware_frame_raises_TypeError:
  "length frame_fw_version = 32 \<and> uint (frame_fw_version ! 3) = SW_FW_VERSION \<and>
   process_frame (Some frame_fw_version) = ([], Some TypeError)"
  by (simp add: frame_fw_version_def process_frame_def Let_def SW_FW_VERSION_def
      SW_SENSOR_DATA_def SW_SYSTEM_STATUS_def)

section \<open>Transport, status wait and configuration\<close>

subsection \<open>\<^verbatim>\<open>read_frame_raw\<close>\<close>

text \<open>
  C4. When the line is low, \<^verbatim>\<open>read_frame_raw\<close> takes the line (output, low), reads 32
  bytes from register 0 and then, whether the read returned bytes or raised, drives the
  line high and configures it as input with pull-up: these five operations are what it
  adds to the log, the pin ends as input with pull-up, and the result is the bytes read
  or the exception of the read.
\<close>

theorem read_frame_raw_releases:
  assumes "level = 0" and "read_frame_raw level reply s = (r, s')"
  shows "log s' = log s @ [Xfer_value_get, Xfer_init_OUT 0, I2C_readfrom_mem 0x42 0x00 32,
                           Xfer_value_set 1, Xfer_init_IN_PULL_UP]
         \<and> xfer_mode s' = IN_PULL_UP \<and> xfer_out s' = 1
         \<and> r = (case reply of Inl err \<Rightarrow> Inl err | Inr rx \<Rightarrow> Inr (Some rx))"
  using assms
  by (auto simp: read_frame_raw_def do_op_def Let_def SW_ADDR_def split: sum.splits)

text \<open>A bus read that raises OSError: the exception goes on, the line is released.\<close>

theorem read_frame_raw_releases_witness:
  "fst (read_frame_raw 0 (Inl OSError) hw_init) = Inl OSError \<and>
   xfer_mode (snd (read_frame_raw 0 (Inl OSError) hw_init)) = IN_PULL_UP \<and>
   log (snd (read_frame_raw 0 (Inl OSError) hw_init)) =
     [Xfer_value_get, Xfer_init_OUT 0, I2C_readfrom_mem 0x42 0x00 32,
      Xfer_value_set 1, Xfer_init_IN_PULL_UP]"
  using read_frame_raw_releases [of 0 "Inl OSError" hw_init
      "fst (read_frame_raw 0 (Inl OSError) hw_init)" "snd (read_frame_raw 0 (Inl OSError) hw_init)"]
  by (simp add: hw_init_def)

subsection \<open>\<^verbatim>\<open>get_status_expect\<close>\<close>

lemma trace_of_append: "trace_of (a @ b) = trace_of a @ trace_of b"
  by (simp add: trace_of_def)

lemma read_frame_raw_keeps:
  assumes "read_frame_raw level reply s = (r, s')"
  shows "n_polls s' = n_polls s \<and> n_writes s' = n_writes s \<and> trace_of (log s') = trace_of (log s)"
  using assms
  by (auto simp: read_frame_raw_def do_op_def Let_def trace_of_def split: sum.splits if_splits)

lemma read_frame_raw_result:
  assumes "read_frame_raw level reply s = (r, s')"
  shows "r = (if level \<noteq> 0 then Inr None
              else case reply of Inl err \<Rightarrow> Inl err | Inr rx \<Rightarrow> Inr (Some rx))"
  using assms
  by (auto simp: read_frame_raw_def do_op_def Let_def split: sum.splits if_splits)

lemma status_test_frame:
  "5 \<le> length d \<Longrightarrow>
   status_test (Some d) cmd = Inr (uint (d ! 3) = SW_SYSTEM_STATUS \<and> uint (d ! 4) = cmd)"
  by (auto simp: status_test_def getitem_def bind_err_def)

lemma status_test_None: "status_test None cmd = Inr False"
  by (simp add: status_test_def)

lemma poll_step:
  assumes reads: "\<forall>k. \<exists>d. bus_read e k = Inr d \<and> 5 \<le> length d"
  shows "\<exists>s2. n_polls s2 = Suc (n_polls s) \<and> n_writes s2 = n_writes s \<and>
           trace_of (log s2) = trace_of (log s) @ [Sleep_ms 1] \<and>
           get_status_expect e cmd (Suc n) s =
             (if poll_matches e cmd (n_polls s) then (Inr True, s2)
              else get_status_expect e cmd n s2)"
proof -
  let ?k = "n_polls s"
  let ?s1 = "(do_op Xfer_value_get (do_op (Sleep_ms 1) s))\<lparr>n_polls := Suc ?k\<rparr>"
  have s1: "n_polls ?s1 = Suc ?k" "n_writes ?s1 = n_writes s"
    "trace_of (log ?s1) = trace_of (log s) @ [Sleep_ms 1]"
    by (simp_all add: do_op_def trace_of_def)
  obtain d where d: "bus_read e ?k = Inr d" "5 \<le> length d"
    using reads by blast
  show ?thesis
  proof (cases "xfer_at_poll e ?k = 0")
    case False
    then have "get_status_expect e cmd (Suc n) s = get_status_expect e cmd n ?s1"
      by (simp add: Let_def)
    moreover have "\<not> poll_matches e cmd ?k"
      using False by (simp add: poll_matches_def)
    ultimately show ?thesis using s1 by (intro exI [of _ ?s1]) simp
  next
    case True
    obtain r s2 where rf: "read_frame_raw (xfer_at_read e ?k) (bus_read e ?k) ?s1 = (r, s2)"
      by (cases "read_frame_raw (xfer_at_read e ?k) (bus_read e ?k) ?s1")
    from read_frame_raw_keeps [OF rf] s1
    have s2: "n_polls s2 = Suc ?k" "n_writes s2 = n_writes s"
      "trace_of (log s2) = trace_of (log s) @ [Sleep_ms 1]"
      by simp_all
    have r: "r = (if xfer_at_read e ?k \<noteq> 0 then Inr None else Inr (Some d))"
      using read_frame_raw_result [OF rf] d by simp
    have "get_status_expect e cmd (Suc n) s =
            (if poll_matches e cmd ?k then (Inr True, s2) else get_status_expect e cmd n s2)"
      using True rf r d
      by (auto simp: Let_def poll_matches_def status_test_frame status_test_None
          split: bool.splits)
    with s2 show ?thesis by blast
  qed
qed

lemma get_status_expect_ack:
  assumes reads: "\<forall>k. \<exists>d. bus_read e k = Inr d \<and> 5 \<le> length d"
    and run: "get_status_expect e cmd n s = (r, s')"
  shows "r = Inr (polls_until_ack e cmd (n_polls s) n \<noteq> None) \<and>
         n_polls s' = n_polls s + (case polls_until_ack e cmd (n_polls s) n of None \<Rightarrow> n | Some j \<Rightarrow> j) \<and>
         n_writes s' = n_writes s \<and>
         trace_of (log s') = trace_of (log s) @
           replicate (case polls_until_ack e cmd (n_polls s) n of None \<Rightarrow> n | Some j \<Rightarrow> j) (Sleep_ms 1)"
  using run
proof (induction n arbitrary: s)
  case 0
  then show ?case by auto
next
  case (Suc n)
  obtain s2 where s2: "n_polls s2 = Suc (n_polls s)" "n_writes s2 = n_writes s"
      "trace_of (log s2) = trace_of (log s) @ [Sleep_ms 1]"
      "get_status_expect e cmd (Suc n) s =
         (if poll_matches e cmd (n_polls s) then (Inr True, s2)
          else get_status_expect e cmd n s2)"
    using poll_step [OF reads, of s cmd n] by blast
  show ?case
  proof (cases "poll_matches e cmd (n_polls s)")
    case True
    then have "r = Inr True" "s' = s2" using Suc.prems s2(4) by simp_all
    then show ?thesis using True s2 by simp
  next
    case False
    then have "get_status_expect e cmd n s2 = (r, s')" using Suc.prems s2(4) by simp
    from Suc.IH [OF this] show ?thesis
      using False s2 by (simp add: replicate_append_same split: option.splits)
  qed
qed

lemma polls_until_ack_None:
  "polls_until_ack e cmd p n = None \<longleftrightarrow> (\<forall>k<n. \<not> poll_matches e cmd (p + k))"
proof (induction n arbitrary: p)
  case 0
  then show ?case by simp
next
  case (Suc n)
  have "(\<forall>k<Suc n. \<not> poll_matches e cmd (p + k)) \<longleftrightarrow>
        (\<not> poll_matches e cmd p \<and> (\<forall>k<n. \<not> poll_matches e cmd (Suc p + k)))"
    by (auto simp: less_Suc_eq_0_disj)
  then show ?case using Suc [of "Suc p"] by simp
qed

lemma polls_until_ack_first:
  "j < n \<Longrightarrow> poll_matches e cmd (p + j) \<Longrightarrow> \<forall>k<j. \<not> poll_matches e cmd (p + k) \<Longrightarrow>
   polls_until_ack e cmd p n = Some (Suc j)"
proof (induction j arbitrary: p n)
  case 0
  then obtain m where "n = Suc m" by (cases n) auto
  with 0 show ?case by simp
next
  case (Suc j)
  then obtain m where m: "n = Suc m" by (cases n) auto
  have np: "\<not> poll_matches e cmd p" using Suc.prems(3) [rule_format, of 0] by simp
  have "polls_until_ack e cmd (Suc p) m = Some (Suc j)"
  proof (rule Suc.IH)
    show "j < m" using Suc.prems(1) m by simp
    show "poll_matches e cmd (Suc p + j)" using Suc.prems(2) by simp
    show "\<forall>k<j. \<not> poll_matches e cmd (Suc p + k)"
      using Suc.prems(3) [rule_format, of "Suc k" for k] by simp
  qed
  then show ?case using m np by simp
qed

lemma attempts_trace: "attempts l = length (filter (\<lambda>x. x = Sleep_ms 1) (trace_of l))"
  by (induction l) (auto simp: attempts_def trace_of_def)

lemma writes_trace: "writes_of l = filter is_write (trace_of l)"
  by (induction l) (auto simp: writes_of_def trace_of_def)

text \<open>
  C5. Where every bus read returns a frame (of at least 5 bytes; the transport reads 32),
  \<^verbatim>\<open>get_status_expect\<close> with no matching attempt among its \<open>tries\<close> attempts returns
  \<^verbatim>\<open>False\<close> after exactly \<open>tries\<close> attempts; and where attempt \<open>j\<close> is the first that
  yields a matching frame, it returns \<^verbatim>\<open>True\<close> after exactly \<open>j + 1\<close> attempts.
\<close>

theorem get_status_expect_bounded:
  assumes reads: "\<forall>k. \<exists>d. bus_read e k = Inr d \<and> 5 \<le> length d"
    and run: "get_status_expect e cmd_id tries s = (r, s')"
  shows "((\<forall>k<tries. \<not> poll_matches e cmd_id (n_polls s + k)) \<longrightarrow>
            r = Inr False \<and> attempts (log s') = attempts (log s) + tries)
         \<and> (\<forall>j<tries. poll_matches e cmd_id (n_polls s + j)
                \<and> (\<forall>k<j. \<not> poll_matches e cmd_id (n_polls s + k)) \<longrightarrow>
              r = Inr True \<and> attempts (log s') = attempts (log s) + Suc j)"
proof -
  note a = get_status_expect_ack [OF reads run]
  have none: "r = Inr False \<and> attempts (log s') = attempts (log s) + tries"
    if "\<forall>k<tries. \<not> poll_matches e cmd_id (n_polls s + k)"
  proof -
    from that have "polls_until_ack e cmd_id (n_polls s) tries = None"
      by (simp add: polls_until_ack_None)
    with a show ?thesis by (simp add: attempts_trace)
  qed
  have some: "r = Inr True \<and> attempts (log s') = attempts (log s) + Suc j"
    if "j < tries" "poll_matches e cmd_id (n_polls s + j)"
       "\<forall>k<j. \<not> poll_matches e cmd_id (n_polls s + k)" for j
  proof -
    from that have "polls_until_ack e cmd_id (n_polls s) tries = Some (Suc j)"
      by (rule polls_until_ack_first)
    with a show ?thesis by (simp add: attempts_trace)
  qed
  from none some show ?thesis by blast
qed

text \<open>
  With the default of 10 tries: no status frame at all gives \<^verbatim>\<open>False\<close> after 10 attempts;
  a status frame at attempt 3 (counted from 0) gives \<^verbatim>\<open>True\<close> after 4.
\<close>

lemma reads_env_silent: "\<forall>k. \<exists>d. bus_read env_silent k = Inr d \<and> 5 \<le> length d"
  by (simp add: env_silent_def other_frame_def)

lemma reads_env_ack_at: "\<forall>k. \<exists>d. bus_read (env_ack_at ks) k = Inr d \<and> 5 \<le> length d"
  by (simp add: env_ack_at_def other_frame_def status_frame_def)

lemma poll_matches_env_silent: "\<not> poll_matches env_silent SW_SET_RUNTIME k"
  by (simp add: poll_matches_def env_silent_def other_frame_def SW_SYSTEM_STATUS_def)

lemma poll_matches_env_ack_at: "poll_matches (env_ack_at ks) SW_SET_RUNTIME k = (k \<in> set ks)"
  by (simp add: poll_matches_def env_ack_at_def other_frame_def status_frame_def
      SW_SYSTEM_STATUS_def SW_SET_RUNTIME_def)

theorem get_status_expect_bounded_witness:
  "fst (get_status_expect env_silent SW_SET_RUNTIME DEFAULT_TRIES hw_init) = Inr False \<and>
   attempts (log (snd (get_status_expect env_silent SW_SET_RUNTIME DEFAULT_TRIES hw_init))) = 10 \<and>
   fst (get_status_expect (env_ack_at [3]) SW_SET_RUNTIME DEFAULT_TRIES hw_init) = Inr True \<and>
   attempts (log (snd (get_status_expect (env_ack_at [3]) SW_SET_RUNTIME DEFAULT_TRIES hw_init))) = 4"
proof -
  have i: "n_polls hw_init = 0" "attempts (log hw_init) = 0"
    by (simp_all add: hw_init_def attempts_def)
  have 1: "fst (get_status_expect env_silent SW_SET_RUNTIME DEFAULT_TRIES hw_init) = Inr False \<and>
     attempts (log (snd (get_status_expect env_silent SW_SET_RUNTIME DEFAULT_TRIES hw_init))) = 10"
    using get_status_expect_bounded [where e = env_silent and cmd_id = SW_SET_RUNTIME
        and tries = DEFAULT_TRIES and s = hw_init, OF reads_env_silent prod.collapse [symmetric]]
    by (simp add: i poll_matches_env_silent DEFAULT_TRIES_def)
  have "fst (get_status_expect (env_ack_at [3]) SW_SET_RUNTIME DEFAULT_TRIES hw_init) = Inr True \<and>
     attempts (log (snd (get_status_expect (env_ack_at [3]) SW_SET_RUNTIME DEFAULT_TRIES hw_init)))
       = 0 + Suc 3"
    using get_status_expect_bounded [where e = "env_ack_at [3]" and cmd_id = SW_SET_RUNTIME
        and tries = DEFAULT_TRIES and s = hw_init, OF reads_env_ack_at prod.collapse [symmetric],
        THEN conjunct2, rule_format, of 3]
    by (simp add: i poll_matches_env_ack_at DEFAULT_TRIES_def)
  with 1 show ?thesis by simp
qed

subsection \<open>\<^verbatim>\<open>configure_runtime\<close>\<close>

lemma enable_mask_val: "enable_mask = 0x1F"
  by (simp add: enable_mask_def SW_DATA_DSP_def SW_DATA_GESTURE_def SW_DATA_TOUCH_def
      SW_DATA_AIRWHEEL_def SW_DATA_XYZ_def)

lemma write_block_ok:
  assumes writes: "\<forall>k. bus_write e k = None"
    and valid: "\<not> list_ex (\<lambda>b. b < 0 \<or> 255 < b) b"
  shows "fst (write_block e 0x10 b s) = Inr () \<and>
         n_polls (snd (write_block e 0x10 b s)) = n_polls s \<and>
         trace_of (log (snd (write_block e 0x10 b s))) =
           trace_of (log s) @ [I2C_writeto_mem 0x42 0x10 b]"
  using assms by (simp add: write_block_def Let_def do_op_def trace_of_def SW_ADDR_def)

lemma after_step_props:
  assumes reads: "\<forall>k. \<exists>d. bus_read e k = Inr d \<and> 5 \<le> length d"
    and writes: "\<forall>k. bus_write e k = None"
    and valid: "\<not> list_ex (\<lambda>b. b < 0 \<or> 255 < b) b"
  shows "n_polls (after_step e b s) =
           n_polls s + (case polls_until_ack e 0xA2 (n_polls s) 10 of None \<Rightarrow> 10 | Some j \<Rightarrow> j)"
    and "trace_of (log (after_step e b s)) =
           trace_of (log s) @ I2C_writeto_mem 0x42 0x10 b #
             replicate (case polls_until_ack e 0xA2 (n_polls s) 10 of None \<Rightarrow> 10 | Some j \<Rightarrow> j)
               (Sleep_ms 1)"
    and "bind_hw (write_block e 0x10 b s) (\<lambda>_ s.
           bind_hw (get_status_expect e SW_SET_RUNTIME DEFAULT_TRIES s) (\<lambda>ok s.
             if \<not> ok then (Inl err, s) else K s)) =
         (case polls_until_ack e 0xA2 (n_polls s) 10 of
            None \<Rightarrow> (Inl err, after_step e b s)
          | Some j \<Rightarrow> K (after_step e b s))"
proof -
  note w = write_block_ok [OF writes valid, of s]
  obtain s1 where wb: "write_block e 0x10 b s = (Inr (), s1)"
    using w by (metis prod.collapse)
  obtain ok s2 where run: "get_status_expect e SW_SET_RUNTIME DEFAULT_TRIES s1 = (ok, s2)"
    by (cases "get_status_expect e SW_SET_RUNTIME DEFAULT_TRIES s1")
  have s2: "after_step e b s = s2"
    by (simp add: after_step_def wb run)
  have s1: "n_polls s1 = n_polls s"
    "trace_of (log s1) = trace_of (log s) @ [I2C_writeto_mem 0x42 0x10 b]"
    using w by (simp_all add: wb)
  note a = get_status_expect_ack [OF reads run, unfolded DEFAULT_TRIES_def SW_SET_RUNTIME_def s1]
  show "n_polls (after_step e b s) =
           n_polls s + (case polls_until_ack e 0xA2 (n_polls s) 10 of None \<Rightarrow> 10 | Some j \<Rightarrow> j)"
    using a by (simp add: s2)
  show "trace_of (log (after_step e b s)) =
           trace_of (log s) @ I2C_writeto_mem 0x42 0x10 b #
             replicate (case polls_until_ack e 0xA2 (n_polls s) 10 of None \<Rightarrow> 10 | Some j \<Rightarrow> j)
               (Sleep_ms 1)"
    using a by (simp add: s2)
  have ok: "ok = Inr (polls_until_ack e 0xA2 (n_polls s) 10 \<noteq> None)"
    using a by simp
  show "bind_hw (write_block e 0x10 b s) (\<lambda>_ s.
           bind_hw (get_status_expect e SW_SET_RUNTIME DEFAULT_TRIES s) (\<lambda>ok s.
             if \<not> ok then (Inl err, s) else K s)) =
         (case polls_until_ack e 0xA2 (n_polls s) 10 of
            None \<Rightarrow> (Inl err, after_step e b s)
          | Some j \<Rightarrow> K (after_step e b s))"
    by (simp add: bind_hw_def wb run ok s2 split: option.splits)
qed

lemma failing_step_4:
  "failing_step e p i 4 =
     (case polls_until_ack e 0xA2 p 10 of None \<Rightarrow> Some i | Some j1 \<Rightarrow>
     (case polls_until_ack e 0xA2 (p + j1) 10 of None \<Rightarrow> Some (Suc i) | Some j2 \<Rightarrow>
     (case polls_until_ack e 0xA2 (p + j1 + j2) 10 of None \<Rightarrow> Some (Suc (Suc i)) | Some j3 \<Rightarrow>
     (case polls_until_ack e 0xA2 (p + j1 + j2 + j3) 10 of None \<Rightarrow> Some (Suc (Suc (Suc i)))
      | Some j4 \<Rightarrow> None))))"
proof -
  have 4: "(4::nat) = Suc (Suc (Suc (Suc 0)))" by simp
  show ?thesis
    by (subst 4) (simp split: option.splits)
qed

lemma filter_write_sleeps: "filter is_write (replicate n (Sleep_ms 1)) = []"
  by (induction n) auto

text \<open>
  C6. Where every bus read returns a frame and no block write fails,
  \<^verbatim>\<open>configure_runtime\<close> writes the four 15-byte blocks of the specification to register
  0x10 in their order, each followed by the attempts of its acknowledgement wait (at most
  10). It returns normally when all four waits see a matching status frame. When the wait
  of step \<open>i\<close> is the first to run out, it raises the RuntimeError that names step \<open>i\<close>, and
  the blocks written are the first \<open>i + 1\<close>: no later block is written.
\<close>

theorem configure_runtime_steps:
  assumes reads: "\<forall>k. \<exists>d. bus_read e k = Inr d \<and> 5 \<le> length d"
    and writes: "\<forall>k. bus_write e k = None"
    and run: "configure_runtime e s = (r, s')"
  shows "r = (case failing_step e (n_polls s) 0 4 of
                None \<Rightarrow> Inr ()
              | Some i \<Rightarrow> Inl (CONFIG_ERRORS ! i))
         \<and> trace_of (log s') = trace_of (log s) @ expected_trace e (n_polls s) CONFIG_BLOCKS
         \<and> writes_of (log s') = writes_of (log s) @
             take (case failing_step e (n_polls s) 0 4 of None \<Rightarrow> 4 | Some i \<Rightarrow> Suc i)
               CONFIG_WRITES
         \<and> list_all (\<lambda>b. length b = 15) CONFIG_BLOCKS"
proof -
  let ?b1 = "[0x00, 0x00, SW_SET_RUNTIME, 0x90, 0x00, 0x00, 0x00, 0x20, 0x00, 0x00, 0x00, 0x20, 0x00, 0x00, 0x00] :: int list"
  let ?b2 = "[0x00, 0x00, SW_SET_RUNTIME, 0x85, 0x00, 0x00, 0x00, 0x7F, 0x00, 0x00, 0x00, 0x7F, 0x00, 0x00, 0x00] :: int list"
  let ?b3 = "[0x00, 0x00, SW_SET_RUNTIME, 0xA0, 0x00, 0x00, 0x00, 0x1F, 0x00, 0x00, 0x00, 0x1F, 0x00, 0x00, 0x00] :: int list"
  let ?b4 = "[0x00, 0x00, SW_SET_RUNTIME, 0x80, 0x00, 0x00, 0x00, 0x00, 0x00, 0x00, 0x00, 0x1F, 0x00, 0x00, 0x00] :: int list"
  let ?t1 = "after_step e ?b1 s"
  let ?t2 = "after_step e ?b2 ?t1"
  let ?t3 = "after_step e ?b3 ?t2"
  let ?t4 = "after_step e ?b4 ?t3"
  let ?p = "n_polls s"
  note st = after_step_props [OF reads writes]
  have v: "\<not> list_ex (\<lambda>b. b < 0 \<or> 255 < b) ?b1" "\<not> list_ex (\<lambda>b. b < 0 \<or> 255 < b) ?b2"
    "\<not> list_ex (\<lambda>b. b < 0 \<or> 255 < b) ?b3" "\<not> list_ex (\<lambda>b. b < 0 \<or> 255 < b) ?b4"
    by (simp_all add: SW_SET_RUNTIME_def)
  have cfg: "configure_runtime e s =
    (case polls_until_ack e 0xA2 ?p 10 of
       None \<Rightarrow> (Inl (RuntimeError ''SET_RUNTIME (AirWheel) no status''), ?t1)
     | Some j1 \<Rightarrow>
    (case polls_until_ack e 0xA2 (n_polls ?t1) 10 of
       None \<Rightarrow> (Inl (RuntimeError ''SET_RUNTIME (gestures) no status''), ?t2)
     | Some j2 \<Rightarrow>
    (case polls_until_ack e 0xA2 (n_polls ?t2) 10 of
       None \<Rightarrow> (Inl (RuntimeError ''SET_RUNTIME (data outputs) no status''), ?t3)
     | Some j3 \<Rightarrow>
    (case polls_until_ack e 0xA2 (n_polls ?t3) 10 of
       None \<Rightarrow> (Inl (RuntimeError ''SET_RUNTIME (autocal off) no status''), ?t4)
     | Some j4 \<Rightarrow> (Inr (), ?t4)))))"
    unfolding configure_runtime_def enable_mask_val
    apply (simp only: st(3) [OF v(4)])
    apply (simp only: st(3) [OF v(3)])
    apply (simp only: st(3) [OF v(2)])
    apply (simp only: st(3) [OF v(1)])
    done
  have p1: "n_polls ?t1 = ?p + (case polls_until_ack e 0xA2 ?p 10 of None \<Rightarrow> 10 | Some j \<Rightarrow> j)"
    by (rule st(1) [OF v(1)])
  have p2: "n_polls ?t2 = n_polls ?t1 +
      (case polls_until_ack e 0xA2 (n_polls ?t1) 10 of None \<Rightarrow> 10 | Some j \<Rightarrow> j)"
    by (rule st(1) [OF v(2)])
  have p3: "n_polls ?t3 = n_polls ?t2 +
      (case polls_until_ack e 0xA2 (n_polls ?t2) 10 of None \<Rightarrow> 10 | Some j \<Rightarrow> j)"
    by (rule st(1) [OF v(3)])
  have l1: "trace_of (log ?t1) = trace_of (log s) @ I2C_writeto_mem 0x42 0x10 ?b1 #
      replicate (case polls_until_ack e 0xA2 ?p 10 of None \<Rightarrow> 10 | Some j \<Rightarrow> j) (Sleep_ms 1)"
    by (rule st(2) [OF v(1)])
  have l2: "trace_of (log ?t2) = trace_of (log ?t1) @ I2C_writeto_mem 0x42 0x10 ?b2 #
      replicate (case polls_until_ack e 0xA2 (n_polls ?t1) 10 of None \<Rightarrow> 10 | Some j \<Rightarrow> j)
        (Sleep_ms 1)"
    by (rule st(2) [OF v(2)])
  have l3: "trace_of (log ?t3) = trace_of (log ?t2) @ I2C_writeto_mem 0x42 0x10 ?b3 #
      replicate (case polls_until_ack e 0xA2 (n_polls ?t2) 10 of None \<Rightarrow> 10 | Some j \<Rightarrow> j)
        (Sleep_ms 1)"
    by (rule st(2) [OF v(3)])
  have l4: "trace_of (log ?t4) = trace_of (log ?t3) @ I2C_writeto_mem 0x42 0x10 ?b4 #
      replicate (case polls_until_ack e 0xA2 (n_polls ?t3) 10 of None \<Rightarrow> 10 | Some j \<Rightarrow> j)
        (Sleep_ms 1)"
    by (rule st(2) [OF v(4)])
  have len: "list_all (\<lambda>b. length b = 15) CONFIG_BLOCKS"
    by (simp add: CONFIG_BLOCKS_def)
  note defs = CONFIG_ERRORS_def CONFIG_BLOCKS_def SW_SET_RUNTIME_def failing_step_4
  have res: "r = (case failing_step e ?p 0 4 of
                None \<Rightarrow> Inr ()
              | Some i \<Rightarrow> Inl (CONFIG_ERRORS ! i))
         \<and> trace_of (log s') = trace_of (log s) @ expected_trace e ?p CONFIG_BLOCKS"
  proof (cases "polls_until_ack e 0xA2 ?p 10")
    case None
    then have "r = Inl (RuntimeError ''SET_RUNTIME (AirWheel) no status'')" "s' = ?t1"
      using run unfolding cfg by simp_all
    then show ?thesis using None l1 by (simp add: defs)
  next
    case a1: (Some j1)
    then have q1: "n_polls ?t1 = ?p + j1" using p1 by simp
    show ?thesis
    proof (cases "polls_until_ack e 0xA2 (?p + j1) 10")
      case None
      then have "r = Inl (RuntimeError ''SET_RUNTIME (gestures) no status'')" "s' = ?t2"
        using run a1 unfolding cfg q1 by simp_all
      then show ?thesis using a1 None l1 l2 q1 by (simp add: defs)
    next
      case a2: (Some j2)
      then have q2: "n_polls ?t2 = ?p + j1 + j2" using p2 q1 by simp
      show ?thesis
      proof (cases "polls_until_ack e 0xA2 (?p + j1 + j2) 10")
        case None
        then have "r = Inl (RuntimeError ''SET_RUNTIME (data outputs) no status'')" "s' = ?t3"
          using run a1 a2 unfolding cfg q1 q2 by simp_all
        then show ?thesis using a1 a2 None l1 l2 l3 q1 q2 by (simp add: defs)
      next
        case a3: (Some j3)
        then have q3: "n_polls ?t3 = ?p + j1 + j2 + j3" using p3 q2 by simp
        show ?thesis
        proof (cases "polls_until_ack e 0xA2 (?p + j1 + j2 + j3) 10")
          case None
          then have "r = Inl (RuntimeError ''SET_RUNTIME (autocal off) no status'')" "s' = ?t4"
            using run a1 a2 a3 unfolding cfg q1 q2 q3 by simp_all
          then show ?thesis using a1 a2 a3 None l1 l2 l3 l4 q1 q2 q3 by (simp add: defs)
        next
          case a4: (Some j4)
          then have "r = Inr ()" "s' = ?t4"
            using run a1 a2 a3 unfolding cfg q1 q2 q3 by simp_all
          then show ?thesis using a1 a2 a3 a4 l1 l2 l3 l4 q1 q2 q3 by (simp add: defs)
        qed
      qed
    qed
  qed
  then have tr: "trace_of (log s') = trace_of (log s) @ expected_trace e ?p CONFIG_BLOCKS"
    by simp
  have wr: "writes_of (log s') = writes_of (log s) @
             take (case failing_step e ?p 0 4 of None \<Rightarrow> 4 | Some i \<Rightarrow> Suc i) CONFIG_WRITES"
    unfolding writes_trace tr failing_step_4
    by (simp add: CONFIG_BLOCKS_def CONFIG_WRITES_def filter_write_sleeps add.assoc
        split: option.splits)
  from res wr len show ?thesis by blast
qed

text \<open>
  Status frames at attempts 3 and 5 only: the third wait runs out, the error names the
  data outputs, three blocks are written. Status frames at 3, 5, 6 and 7: all four
  blocks, no error.
\<close>

lemma writes_env_ack_at: "\<forall>k. bus_write (env_ack_at ks) k = None"
  by (simp add: env_ack_at_def)

theorem configure_runtime_steps_witness:
  "fst (configure_runtime (env_ack_at [3, 5, 20]) hw_init) =
     Inl (RuntimeError ''SET_RUNTIME (data outputs) no status'') \<and>
   writes_of (log (snd (configure_runtime (env_ack_at [3, 5, 20]) hw_init))) =
     take 3 CONFIG_WRITES \<and>
   fst (configure_runtime (env_ack_at [3, 5, 6, 7]) hw_init) = Inr () \<and>
   writes_of (log (snd (configure_runtime (env_ack_at [3, 5, 6, 7]) hw_init))) = CONFIG_WRITES"
proof -
  have i: "n_polls hw_init = 0" "writes_of (log hw_init) = []"
    by (simp_all add: hw_init_def writes_of_def)
  have f1: "failing_step (env_ack_at [3, 5, 20]) 0 0 4 = Some 2"
    by code_simp
  have f2: "failing_step (env_ack_at [3, 5, 6, 7]) 0 0 4 = None"
    by code_simp
  have 1: "fst (configure_runtime (env_ack_at [3, 5, 20]) hw_init) =
     Inl (RuntimeError ''SET_RUNTIME (data outputs) no status'') \<and>
   writes_of (log (snd (configure_runtime (env_ack_at [3, 5, 20]) hw_init))) =
     take 3 CONFIG_WRITES"
    using configure_runtime_steps [where e = "env_ack_at [3, 5, 20]" and s = hw_init,
        OF reads_env_ack_at writes_env_ack_at prod.collapse [symmetric]]
    by (simp add: i f1 CONFIG_ERRORS_def)
  have 2: "fst (configure_runtime (env_ack_at [3, 5, 6, 7]) hw_init) = Inr () \<and>
   writes_of (log (snd (configure_runtime (env_ack_at [3, 5, 6, 7]) hw_init))) = CONFIG_WRITES"
    using configure_runtime_steps [where e = "env_ack_at [3, 5, 6, 7]" and s = hw_init,
        OF reads_env_ack_at writes_env_ack_at prod.collapse [symmetric]]
    by (simp add: i f2 CONFIG_WRITES_def CONFIG_BLOCKS_def)
  from 1 2 show ?thesis by simp
qed

end
